theory Spec2Isabelle
  imports Main "HOL-Library.Extended_Nat" "HOL-Library.Monad_Syntax"
begin

section \<open>The optimal calculus runtime: values, heap and allocator\<close>

text \<open>
  The runtime keeps its whole state in global variables: the heap \<open>MEM\<close>, four free
  lists \<open>RE0\<close> .. \<open>RE3\<close>, the rewrite counter \<open>GAS\<close> and its limit \<open>LIM\<close> (the field \<open>LIM'\<close>: \<open>LIM\<close> is taken in HOL).
  Every value the runtime computes with is a JavaScript number or \<open>undefined\<close>.
  The numbers that occur are non-negative integers and \<open>NaN\<close> (the position of
  \<open>undefined\<close>); they are modelled exactly, which agrees with double arithmetic for
  integers below \<open>2^53\<close>.
\<close>

datatype number = Num nat | NaN

text \<open>A tagged pointer as the heap holds it: a number, or \<open>None\<close> for \<open>undefined\<close>.\<close>

type_synonym Ptr = "number option"

definition NIL :: nat where "NIL = 0"
definition LAM :: nat where "LAM = 1"
definition APP :: nat where "APP = 2"
definition PAR :: nat where "PAR = 3"
definition DP0 :: nat where "DP0 = 4"
definition DP1 :: nat where "DP1 = 5"
definition VAR :: nat where "VAR = 6"
definition LNK :: nat where "LNK = 7"
definition CTR :: nat where "CTR = 8"
definition CAL :: nat where "CAL = 9"

definition MUL_A :: nat where "MUL_A = 2 ^ 4"
definition MUL_B :: nat where "MUL_B = 2 ^ 12"
definition MUL_C :: nat where "MUL_C = 2 ^ 20"

record state =
  MEM :: "Ptr list"
  MEM_NaN :: Ptr
  RE0 :: "number list"
  RE1 :: "number list"
  RE2 :: "number list"
  RE3 :: "number list"
  GAS :: nat
  LIM' :: enat

text \<open>
  \<open>MEM_NaN\<close> is the property \<open>MEM["NaN"]\<close> of the array object, which an access at
  index \<open>NaN\<close> reads and writes. The free lists are stacks, written with the top
  (the last pushed position) at the head of the list.
\<close>

definition ptr :: "nat \<Rightarrow> number \<Rightarrow> nat \<Rightarrow> nat \<Rightarrow> number" where
  "ptr tag pos ex0 ex1 =
     (case pos of
        Num p \<Rightarrow> Num (tag + (ex0 * MUL_A) + (ex1 * MUL_B) + (p * MUL_C))
      | NaN \<Rightarrow> NaN)"

text \<open>
  The bitwise \<open>&\<close> of JavaScript turns \<open>undefined\<close> and \<open>NaN\<close> into \<open>0\<close>;
  \<open>Math.floor(undefined / MUL_C)\<close> is \<open>NaN\<close>.
\<close>

definition get_tag :: "Ptr \<Rightarrow> nat" where
  "get_tag p = (case p of Some (Num n) \<Rightarrow> n mod 16 | _ \<Rightarrow> 0)"

definition get_ex0 :: "Ptr \<Rightarrow> nat" where
  "get_ex0 p = (case p of Some (Num n) \<Rightarrow> (n div MUL_A) mod 256 | _ \<Rightarrow> 0)"

definition get_ex1 :: "Ptr \<Rightarrow> nat" where
  "get_ex1 p = (case p of Some (Num n) \<Rightarrow> (n div MUL_B) mod 256 | _ \<Rightarrow> 0)"

definition get_pos :: "Ptr \<Rightarrow> number" where
  "get_pos p = (case p of Some (Num n) \<Rightarrow> Num (n div MUL_C) | _ \<Rightarrow> NaN)"

definition get_loc :: "Ptr \<Rightarrow> nat \<Rightarrow> number" where
  "get_loc p arg = (case p of Some (Num n) \<Rightarrow> Num (n div MUL_C + arg) | _ \<Rightarrow> NaN)"

text \<open>
  Reading \<open>MEM[i]\<close>: past the end of the array the value is \<open>undefined\<close>.
  Writing \<open>MEM[i] = v\<close>: past the end the array grows, the cells in between being
  holes that read as \<open>undefined\<close>.
\<close>

definition mem_read :: "state \<Rightarrow> number \<Rightarrow> Ptr" where
  "mem_read s i =
     (case i of
        Num k \<Rightarrow> (if k < length (MEM s) then MEM s ! k else None)
      | NaN \<Rightarrow> MEM_NaN s)"

definition mem_write :: "number \<Rightarrow> Ptr \<Rightarrow> state \<Rightarrow> state" where
  "mem_write i v s =
     (case i of
        Num k \<Rightarrow>
          (if k < length (MEM s) then s\<lparr>MEM := (MEM s)[k := v]\<rparr>
           else s\<lparr>MEM := MEM s @ replicate (k - length (MEM s)) None @ [v]\<rparr>)
      | NaN \<Rightarrow> s\<lparr>MEM_NaN := v\<rparr>)"

definition get_arg :: "state \<Rightarrow> Ptr \<Rightarrow> nat \<Rightarrow> Ptr" where
  "get_arg s term idx = mem_read s (get_loc term idx)"

definition num_add :: "number \<Rightarrow> nat \<Rightarrow> number" where
  "num_add p k = (case p of Num n \<Rightarrow> Num (n + k) | NaN \<Rightarrow> NaN)"

definition link :: "number \<Rightarrow> Ptr \<Rightarrow> state \<Rightarrow> state" where
  "link pos term s =
     (let s1 = mem_write pos term s in
      if get_tag term = VAR then mem_write (get_loc term 0) (Some (ptr LNK pos 0 0)) s1
      else if get_tag term = DP0 then mem_write (get_loc term 0) (Some (ptr LNK pos 0 0)) s1
      else if get_tag term = DP1 then mem_write (get_loc term 1) (Some (ptr LNK pos 0 0)) s1
      else s1)"

text \<open>\<open>RE.pop()\<close>: the top of the stack, or \<open>undefined\<close> when it is empty.\<close>

definition pop_RE0 :: "state \<Rightarrow> number option \<times> state" where
  "pop_RE0 s = (case RE0 s of [] \<Rightarrow> (None, s) | p # ps \<Rightarrow> (Some p, s\<lparr>RE0 := ps\<rparr>))"

definition pop_RE1 :: "state \<Rightarrow> number option \<times> state" where
  "pop_RE1 s = (case RE1 s of [] \<Rightarrow> (None, s) | p # ps \<Rightarrow> (Some p, s\<lparr>RE1 := ps\<rparr>))"

definition pop_RE2 :: "state \<Rightarrow> number option \<times> state" where
  "pop_RE2 s = (case RE2 s of [] \<Rightarrow> (None, s) | p # ps \<Rightarrow> (Some p, s\<lparr>RE2 := ps\<rparr>))"

definition pop_RE3 :: "state \<Rightarrow> number option \<times> state" where
  "pop_RE3 s = (case RE3 s of [] \<Rightarrow> (None, s) | p # ps \<Rightarrow> (Some p, s\<lparr>RE3 := ps\<rparr>))"

definition alloc :: "nat \<Rightarrow> state \<Rightarrow> number \<times> state" where
  "alloc sz s =
     (let (reuse, s1) =
            (if sz = 0 then pop_RE0 s
             else if sz = 1 then pop_RE1 s
             else if sz = 2 then pop_RE2 s
             else if sz = 3 then pop_RE3 s
             else (None, s))
      in case reuse of
           Some p \<Rightarrow> (p, s1)
         | None \<Rightarrow>
             (if sz > 0
              then (Num (length (MEM s1)), s1\<lparr>MEM := MEM s1 @ replicate sz (Some (Num 0))\<rparr>)
              else (Num 0, s1)))"

text \<open>
  \<open>free\<close>: the loop \<open>for (k = pos; k < pos + size; ++k) MEM[k] = 0\<close> does not run
  when \<open>pos\<close> is \<open>NaN\<close>. The debugging table \<open>IS_FREED\<close> is written and never
  read, and is left out.
\<close>

definition zero_cells :: "number \<Rightarrow> nat \<Rightarrow> state \<Rightarrow> state" where
  "zero_cells pos sz s =
     (case pos of
        Num p \<Rightarrow> fold (\<lambda>k. mem_write (Num k) (Some (Num 0))) [p..<p + sz] s
      | NaN \<Rightarrow> s)"

definition free :: "number \<Rightarrow> nat \<Rightarrow> state \<Rightarrow> state" where
  "free pos sz s =
     (let s1 = zero_cells pos sz s in
      if sz = 0 then s1\<lparr>RE0 := pos # RE0 s1\<rparr>
      else if sz = 1 then s1\<lparr>RE1 := pos # RE1 s1\<rparr>
      else if sz = 2 then s1\<lparr>RE2 := pos # RE2 s1\<rparr>
      else if sz = 3 then s1\<lparr>RE3 := pos # RE3 s1\<rparr>
      else s1)"


section \<open>Garbage collection and substitution\<close>

text \<open>
  The recursive functions of the runtime take a fuel argument, the depth of
  recursion still allowed: \<open>None\<close> stands for a run that exceeds it (the JavaScript
  recurses without bound). \<open>host\<close> of \<open>collect\<close> is a position or \<open>null\<close>
  (\<open>None\<close>); the test \<open>if (host)\<close> fails for \<open>null\<close>, \<open>0\<close> and \<open>NaN\<close>.
\<close>

definition truthy :: "number option \<Rightarrow> bool" where
  "truthy host = (case host of Some (Num k) \<Rightarrow> k \<noteq> 0 | _ \<Rightarrow> False)"

definition free_host :: "number option \<Rightarrow> state \<Rightarrow> state" where
  "free_host host s = (if truthy host then free (the host) 1 s else s)"

fun collect :: "nat \<Rightarrow> Ptr \<Rightarrow> number option \<Rightarrow> state \<Rightarrow> state option" where
  "collect 0 term host s = None"
| "collect (Suc n) term host s =
     (if get_tag term = LAM then
        (let s1 = (if get_tag (get_arg s term 0) \<noteq> NIL
                   then link (get_loc (get_arg s term 0) 0) (Some (ptr NIL (Num 0) 0 0)) s
                   else s)
         in do {
           s2 \<leftarrow> collect n (get_arg s1 term 1) (Some (get_loc term 1)) s1;
           Some (free (get_loc term 0) 2 s2)
         })
      else if get_tag term = APP then
        do {
          s1 \<leftarrow> collect n (get_arg s term 0) (Some (get_loc term 0)) s;
          s2 \<leftarrow> collect n (get_arg s1 term 1) (Some (get_loc term 1)) s1;
          Some (free (get_loc term 0) 2 s2)
        }
      else if get_tag term = PAR then
        do {
          s1 \<leftarrow> collect n (get_arg s term 0) (Some (get_loc term 0)) s;
          s2 \<leftarrow> collect n (get_arg s1 term 1) (Some (get_loc term 1)) s1;
          let s3 = free (get_loc term 0) 2 s2;
          Some (if truthy host then link (the host) (Some (ptr NIL (Num 0) 0 0)) s3 else s3)
        }
      else if get_tag term = DP0 then
        Some (free_host host (link (get_loc term 0) (Some (ptr NIL (Num 0) 0 0)) s))
      else if get_tag term = DP1 then
        Some (free_host host (link (get_loc term 1) (Some (ptr NIL (Num 0) 0 0)) s))
      else if get_tag term = CTR \<or> get_tag term = CAL then
        (let arity = get_ex0 term in
         do {
           s1 \<leftarrow> fold (\<lambda>i r. r \<bind> (\<lambda>s'. collect n (get_arg s' term i) (Some (get_loc term i)) s'))
                  [0..<arity] (Some s);
           Some (free (get_loc term 0) arity s1)
         })
      else if get_tag term = VAR then
        Some (free_host host (link (get_loc term 0) (Some (ptr NIL (Num 0) 0 0)) s))
      else Some s)"

definition subst :: "nat \<Rightarrow> Ptr \<Rightarrow> Ptr \<Rightarrow> state \<Rightarrow> state option" where
  "subst n lnk val s =
     (if get_tag lnk \<noteq> NIL then Some (link (get_loc lnk 0) val s)
      else collect n val None s)"

section \<open>The rewrite rules\<close>

text \<open>
  Each rule is guarded in \<open>reduce\<close> by
  \<open>if (GAS >= LIM) { return term; } else { ++GAS; }\<close>. The increment is the first
  step of each rule below; the test is in \<open>reduce\<close>.
\<close>

definition gas_out :: "state \<Rightarrow> bool" where
  "gas_out s = (LIM' s \<le> enat (GAS s))"

definition tick :: "state \<Rightarrow> state" where
  "tick s = s\<lparr>GAS := GAS s + 1\<rparr>"

definition app_lam :: "nat \<Rightarrow> number \<Rightarrow> Ptr \<Rightarrow> Ptr \<Rightarrow> state \<Rightarrow> state option" where
  "app_lam n host term func s0 =
     (let s = tick s0 in
      do {
        s1 \<leftarrow> subst n (get_arg s func 0) (get_arg s term 1) s;
        let s2 = link host (get_arg s1 func 1) s1;
        let s3 = free (get_loc term 0) 2 s2;
        Some (free (get_loc func 0) 2 s3)
      })"

definition app_par :: "number \<Rightarrow> Ptr \<Rightarrow> Ptr \<Rightarrow> state \<Rightarrow> state" where
  "app_par host term func s0 =
     (let s = tick s0;
          (let0, s) = alloc 3 s;
          (app0, s) = alloc 2 s;
          (app1, s) = alloc 2 s;
          (par0, s) = alloc 2 s;
          s = link (num_add let0 2) (get_arg s term 1) s;
          s = link (num_add app0 0) (get_arg s func 0) s;
          s = link (num_add app0 1) (Some (ptr DP0 let0 (get_ex0 func) 0)) s;
          s = link (num_add app1 0) (get_arg s func 1) s;
          s = link (num_add app1 1) (Some (ptr DP1 let0 (get_ex0 func) 0)) s;
          s = link (num_add par0 0) (Some (ptr APP app0 0 0)) s;
          s = link (num_add par0 1) (Some (ptr APP app1 0 0)) s;
          s = link host (Some (ptr PAR par0 (get_ex0 func) 0)) s;
          s = free (get_loc term 0) 2 s
      in free (get_loc func 0) 2 s)"

definition let_lam :: "nat \<Rightarrow> number \<Rightarrow> Ptr \<Rightarrow> Ptr \<Rightarrow> state \<Rightarrow> state option" where
  "let_lam n host term expr s0 =
     (let s = tick s0;
          (lam0, s) = alloc 2 s;
          (lam1, s) = alloc 2 s;
          (par0, s) = alloc 2 s;
          (let0, s) = alloc 3 s;
          s = link (num_add lam0 1) (Some (ptr DP0 let0 (get_ex0 term) 0)) s;
          s = link (num_add lam1 1) (Some (ptr DP1 let0 (get_ex0 term) 0)) s;
          s = link (num_add par0 0) (Some (ptr VAR lam0 0 0)) s;
          s = link (num_add par0 1) (Some (ptr VAR lam1 0 0)) s;
          s = link (num_add let0 2) (get_arg s expr 1) s
      in do {
        s \<leftarrow> subst n (get_arg s term 0) (Some (ptr LAM lam0 0 0)) s;
        s \<leftarrow> subst n (get_arg s term 1) (Some (ptr LAM lam1 0 0)) s;
        s \<leftarrow> subst n (get_arg s expr 0) (Some (ptr PAR par0 (get_ex0 term) 0)) s;
        let s = link host (Some (ptr LAM (if get_tag term = DP0 then lam0 else lam1) 0 0)) s;
        let s = free (get_loc term 0) 3 s;
        Some (free (get_loc expr 0) 2 s)
      })"

definition let_par_annihilate :: "nat \<Rightarrow> number \<Rightarrow> Ptr \<Rightarrow> Ptr \<Rightarrow> state \<Rightarrow> state option" where
  "let_par_annihilate n host term expr s0 =
     (let s = tick s0 in
      do {
        s \<leftarrow> subst n (get_arg s term 0) (get_arg s expr 0) s;
        s \<leftarrow> subst n (get_arg s term 1) (get_arg s expr 1) s;
        let s = link host (get_arg s expr (if get_tag term = DP0 then 0 else 1)) s;
        let s = free (get_loc term 0) 3 s;
        Some (free (get_loc expr 0) 2 s)
      })"

definition let_par_commute :: "nat \<Rightarrow> number \<Rightarrow> Ptr \<Rightarrow> Ptr \<Rightarrow> state \<Rightarrow> state option" where
  "let_par_commute n host term expr s0 =
     (let s = tick s0;
          (par0, s) = alloc 2 s;
          (par1, s) = alloc 2 s;
          (let0, s) = alloc 3 s;
          (let1, s) = alloc 3 s;
          s = link (num_add par0 0) (Some (ptr DP0 let0 (get_ex0 term) 0)) s;
          s = link (num_add par0 1) (Some (ptr DP0 let1 (get_ex0 term) 0)) s;
          s = link (num_add par1 0) (Some (ptr DP1 let0 (get_ex0 term) 0)) s;
          s = link (num_add par1 1) (Some (ptr DP1 let1 (get_ex0 term) 0)) s;
          s = link (num_add let0 2) (get_arg s expr 0) s;
          s = link (num_add let1 2) (get_arg s expr 1) s
      in do {
        s \<leftarrow> subst n (get_arg s term 0) (Some (ptr PAR par0 (get_ex0 expr) 0)) s;
        s \<leftarrow> subst n (get_arg s term 1) (Some (ptr PAR par1 (get_ex0 expr) 0)) s;
        let s = link host (Some (ptr PAR (if get_tag term = DP0 then par0 else par1) (get_ex0 expr) 0)) s;
        let s = free (get_loc term 0) 3 s;
        Some (free (get_loc expr 0) 2 s)
      })"

definition let_ctr_arg :: "Ptr \<Rightarrow> number \<Rightarrow> number \<Rightarrow> nat \<Rightarrow> state \<Rightarrow> state" where
  "let_ctr_arg expr ctr0 ctr1 i s0 =
     (let (leti, s) = alloc 3 s0;
          s = link (num_add ctr0 i) (Some (ptr DP0 leti 0 0)) s;
          s = link (num_add ctr1 i) (Some (ptr DP1 leti 0 0)) s
      in link (num_add leti 2) (get_arg s expr i) s)"

definition let_ctr :: "nat \<Rightarrow> number \<Rightarrow> Ptr \<Rightarrow> Ptr \<Rightarrow> state \<Rightarrow> state option" where
  "let_ctr n host term expr s0 =
     (let s = tick s0;
          arit = get_ex0 expr;
          func = get_ex1 expr;
          (ctr0, s) = alloc arit s;
          (ctr1, s) = alloc arit s;
          s = fold (let_ctr_arg expr ctr0 ctr1) [0..<arit] s
      in do {
        s \<leftarrow> subst n (get_arg s term 0) (Some (ptr CTR ctr0 arit func)) s;
        s \<leftarrow> subst n (get_arg s term 1) (Some (ptr CTR ctr1 arit func)) s;
        let s = link host (Some (ptr CTR (if get_tag term = DP0 then ctr0 else ctr1) arit func)) s;
        let s = free (get_loc term 0) 3 s;
        Some (free (get_loc expr 0) arit s)
      })"

section \<open>Weak head normal form and normalisation\<close>

fun reduce :: "nat \<Rightarrow> number \<Rightarrow> state \<Rightarrow> (Ptr \<times> state) option" where
  "reduce 0 host s = None"
| "reduce (Suc n) host s =
     (let term = mem_read s host in
      if get_tag term = APP then
        (case reduce n (get_loc term 0) s of
           None \<Rightarrow> None
         | Some (func, s1) \<Rightarrow>
             if get_tag func = LAM then
               (if gas_out s1 then Some (term, s1)
                else app_lam n host term func s1 \<bind> reduce n host)
             else if get_tag func = PAR then
               (if gas_out s1 then Some (term, s1)
                else (let s2 = app_par host term func s1 in Some (mem_read s2 host, s2)))
             else Some (term, s1))
      else if get_tag term = DP0 \<or> get_tag term = DP1 then
        (case reduce n (get_loc term 2) s of
           None \<Rightarrow> None
         | Some (expr, s1) \<Rightarrow>
             if get_tag expr = LAM then
               (if gas_out s1 then Some (term, s1)
                else let_lam n host term expr s1 \<bind> reduce n host)
             else if get_tag expr = PAR then
               (if gas_out s1 then Some (term, s1)
                else if get_ex0 term = get_ex0 expr
                then let_par_annihilate n host term expr s1 \<bind> reduce n host
                else let_par_commute n host term expr s1 \<bind> (\<lambda>s2. Some (mem_read s2 host, s2)))
             else if get_tag expr = CTR then
               (if gas_out s1 then Some (term, s1)
                else let_ctr n host term expr s1 \<bind> (\<lambda>s2. Some (mem_read s2 host, s2)))
             else Some (term, s1))
      else Some (term, s))"

text \<open>
  \<open>normal\<close>: the table \<open>seen\<close> is keyed by the position \<open>get_loc(term,0)\<close>; it is
  modelled by the list of the positions entered so far.
\<close>

definition go_child :: "(number \<Rightarrow> number list \<Rightarrow> state \<Rightarrow> (Ptr \<times> number list \<times> state) option)
    \<Rightarrow> number \<Rightarrow> (number list \<times> state) \<Rightarrow> (number list \<times> state) option" where
  "go_child go loc r =
     (case go loc (fst r) (snd r) of
        None \<Rightarrow> None
      | Some (t, seen', s') \<Rightarrow> Some (seen', link loc t s'))"

fun go :: "nat \<Rightarrow> number \<Rightarrow> number list \<Rightarrow> state \<Rightarrow> (Ptr \<times> number list \<times> state) option" where
  "go 0 host seen s = None"
| "go (Suc n) host seen s =
     (let term = mem_read s host in
      if get_loc term 0 \<in> set seen then Some (term, seen, s)
      else
        (case reduce n host s of
           None \<Rightarrow> None
         | Some (term, s1) \<Rightarrow>
             (let seen1 = get_loc term 0 # seen in
              if get_tag term = LAM then
                do {
                  r \<leftarrow> go_child (go n) (get_loc term 1) (seen1, s1);
                  Some (term, r)
                }
              else if get_tag term = APP \<or> get_tag term = PAR then
                do {
                  r \<leftarrow> go_child (go n) (get_loc term 0) (seen1, s1);
                  r \<leftarrow> go_child (go n) (get_loc term 1) r;
                  Some (term, r)
                }
              else if get_tag term = DP0 \<or> get_tag term = DP1 then
                do {
                  r \<leftarrow> go_child (go n) (get_loc term 2) (seen1, s1);
                  Some (term, r)
                }
              else if get_tag term = CAL \<or> get_tag term = CTR then
                do {
                  r \<leftarrow> fold (\<lambda>i r. r \<bind> go_child (go n) (get_loc term i))
                         [0..<get_ex0 term] (Some (seen1, s1));
                  Some (term, r)
                }
              else Some (term, seen1, s1))))"

definition normal :: "nat \<Rightarrow> number \<Rightarrow> state \<Rightarrow> (Ptr \<times> state) option" where
  "normal n host s = map_option (\<lambda>(t, seen, s'). (t, s')) (go n host [] s)"

section \<open>The textual surface: \<open>read\<close>\<close>

text \<open>
  The source text is a JavaScript string, modelled as the list of its UTF-16 code
  units; \<open>units\<close> turns an ASCII string into such a list, and the letter lambda is
  the code unit 955. The tables \<open>lams\<close>, \<open>let0s\<close>, \<open>let1s\<close>, \<open>tag0s\<close>,
  \<open>tag1s\<close> are objects used as dictionaries from names to numbers; they are
  modelled as maps, so a name that is a property of \<open>Object.prototype\<close> (such as
  \<open>constructor\<close>) is not covered. \<open>consume\<close> throws the string \<open>Bad parse\<close>.
\<close>

datatype failure = BadParse | OutOfFuel

definition bindE :: "failure + 'a \<Rightarrow> ('a \<Rightarrow> failure + 'b) \<Rightarrow> failure + 'b" where
  "bindE r f = (case r of Inl e \<Rightarrow> Inl e | Inr x \<Rightarrow> f x)"

definition units :: "string \<Rightarrow> nat list" where
  "units str = map of_char str"

record pstate =
  code :: "nat list"
  heap :: state
  lams :: "nat list \<rightharpoonup> number"
  let0s :: "nat list \<rightharpoonup> number"
  let1s :: "nat list \<rightharpoonup> number"
  tag0s :: "nat list \<rightharpoonup> nat"
  tag1s :: "nat list \<rightharpoonup> nat"
  vars :: "(nat list \<times> number) list"

definition skip :: "pstate \<Rightarrow> pstate" where
  "skip p = p\<lparr>code := dropWhile (\<lambda>c. c = 32 \<or> c = 10) (code p)\<rparr>"

definition is_name_char :: "nat \<Rightarrow> bool" where
  "is_name_char c = (97 \<le> c \<and> c \<le> 122 \<or> 65 \<le> c \<and> c \<le> 90 \<or> 48 \<le> c \<and> c \<le> 57
                      \<or> c = 95 \<or> c = 46)"

definition parse_name :: "pstate \<Rightarrow> nat list \<times> pstate" where
  "parse_name p0 =
     (let p = skip p0 in
      (takeWhile is_name_char (code p), p\<lparr>code := dropWhile is_name_char (code p)\<rparr>))"

definition consume :: "nat list \<Rightarrow> pstate \<Rightarrow> failure + pstate" where
  "consume str p0 =
     (let p = skip p0 in
      if take (length str) (code p) = str then Inr (p\<lparr>code := drop (length str) (code p)\<rparr>)
      else Inl BadParse)"

definition is_digit :: "nat \<Rightarrow> bool" where
  "is_digit c = (48 \<le> c \<and> c \<le> 57)"

definition parse_numb :: "pstate \<Rightarrow> nat \<times> pstate" where
  "parse_numb p =
     (foldl (\<lambda>a d. a * 10 + (d - 48)) 0 (takeWhile is_digit (code p)),
      p\<lparr>code := dropWhile is_digit (code p)\<rparr>)"

definition p_alloc :: "nat \<Rightarrow> pstate \<Rightarrow> number \<times> pstate" where
  "p_alloc sz p = (let (node, h) = alloc sz (heap p) in (node, p\<lparr>heap := h\<rparr>))"

definition p_link :: "number \<Rightarrow> Ptr \<Rightarrow> pstate \<Rightarrow> pstate" where
  "p_link pos term p = p\<lparr>heap := link pos term (heap p)\<rparr>"

definition parse_args ::
  "(number \<Rightarrow> pstate \<Rightarrow> failure + (number \<times> pstate)) \<Rightarrow> number \<Rightarrow> nat \<Rightarrow> pstate
     \<Rightarrow> failure + (number list \<times> pstate)" where
  "parse_args parse node arit p =
     fold (\<lambda>i r. bindE r (\<lambda>(args, p1).
             bindE (parse (num_add node i) p1) (\<lambda>(a, p2). Inr (args @ [a], p2))))
       [0..<arit] (Inr ([], p))"

definition link_args :: "number \<Rightarrow> number list \<Rightarrow> nat \<Rightarrow> pstate \<Rightarrow> pstate" where
  "link_args node args arit p =
     fold (\<lambda>i. p_link (num_add node i) (if i < length args then Some (args ! i) else None))
       [0..<arit] p"

fun parse_term :: "nat \<Rightarrow> number \<Rightarrow> pstate \<Rightarrow> failure + (number \<times> pstate)" where
  "parse_term 0 local p0 = Inl OutOfFuel"
| "parse_term (Suc n) local p0 =
     (let p = skip p0 in
      if take 1 (code p) = [955] then
        bindE (consume [955] p) (\<lambda>p.
        let (node, p) = p_alloc 2 p;
            (name, p) = parse_name p
        in
        bindE (consume (units '':'') p) (\<lambda>p.
        bindE (parse_term n (num_add node 1) p) (\<lambda>(body, p).
        let p = p_link (num_add node 0) (Some (ptr NIL (Num 0) 0 0)) p;
            p = p_link (num_add node 1) (Some body) p;
            p = p\<lparr>lams := (lams p)(name \<mapsto> node)\<rparr>
        in Inr (ptr LAM node 0 0, p))))
      else if take 1 (code p) = units ''('' then
        bindE (consume (units ''('') p) (\<lambda>p.
        let (node, p) = p_alloc 2 p in
        bindE (parse_term n (num_add node 0) p) (\<lambda>(func, p).
        bindE (parse_term n (num_add node 1) p) (\<lambda>(argm, p).
        bindE (consume (units '')'') p) (\<lambda>p.
        let p = p_link (num_add node 0) (Some func) p;
            p = p_link (num_add node 1) (Some argm) p
        in Inr (ptr APP node 0 0, p)))))
      else if take 1 (code p) = units ''&'' then
        bindE (consume (units ''&'') p) (\<lambda>p.
        let (col, p) = parse_numb p in
        bindE (consume (units ''<'') p) (\<lambda>p.
        bindE (consume (units ''>'') p) (\<lambda>p.
        let (node, p) = p_alloc 2 p in
        bindE (parse_term n (num_add node 0) p) (\<lambda>(val0, p).
        bindE (parse_term n (num_add node 1) p) (\<lambda>(val1, p).
        let p = p_link (num_add node 0) (Some val0) p;
            p = p_link (num_add node 1) (Some val1) p;
            p = skip p
        in Inr (ptr PAR node col 0, p))))))
      else if take 1 (code p) = units ''!'' then
        bindE (consume (units ''!'') p) (\<lambda>p.
        let (col, p) = parse_numb p in
        bindE (consume (units ''<'') p) (\<lambda>p.
        let (nam0, p) = parse_name p;
            (nam1, p) = parse_name p
        in
        bindE (consume (units ''>'') p) (\<lambda>p.
        bindE (consume (units ''='') p) (\<lambda>p.
        let (node, p) = p_alloc 3 p in
        bindE (parse_term n (num_add node 2) p) (\<lambda>(expr, p).
        bindE (consume (units '';'') p) (\<lambda>p.
        bindE (parse_term n local p) (\<lambda>(body, p).
        let p = p_link (num_add node 0) (Some (ptr NIL (Num 0) 0 0)) p;
            p = p_link (num_add node 1) (Some (ptr NIL (Num 0) 0 0)) p;
            p = p_link (num_add node 2) (Some expr) p;
            p = p\<lparr>let0s := (let0s p)(nam0 \<mapsto> node)\<rparr>;
            p = p\<lparr>tag0s := (tag0s p)(nam0 \<mapsto> col)\<rparr>;
            p = p\<lparr>let1s := (let1s p)(nam1 \<mapsto> node)\<rparr>;
            p = p\<lparr>tag1s := (tag1s p)(nam1 \<mapsto> col)\<rparr>
        in Inr (body, p))))))))
      else if take 1 (code p) = units ''$'' then
        bindE (consume (units ''$'') p) (\<lambda>p.
        let (func, p) = parse_numb p in
        bindE (consume (units '':'') p) (\<lambda>p.
        let (arit, p) = parse_numb p in
        bindE (consume (units ''{'') p) (\<lambda>p.
        let (node, p) = p_alloc arit p in
        bindE (parse_args (parse_term n) node arit p) (\<lambda>(args, p).
        bindE (consume (units ''}'') p) (\<lambda>p.
        Inr (ptr CTR node arit func, link_args node args arit p))))))
      else if take 1 (code p) = units ''@'' then
        bindE (consume (units ''@'') p) (\<lambda>p.
        let (func, p) = parse_numb p in
        bindE (consume (units '':'') p) (\<lambda>p.
        let (arit, p) = parse_numb p in
        bindE (consume (units ''{'') p) (\<lambda>p.
        let (node, p) = p_alloc arit p in
        bindE (parse_args (parse_term n) node arit p) (\<lambda>(args, p).
        bindE (consume (units ''}'') p) (\<lambda>p.
        Inr (ptr CAL node arit func, link_args node args arit p))))))
      else
        (let (name, p) = parse_name p;
             vari = ptr NIL (Num 0) 0 0
         in Inr (vari, p\<lparr>vars := vars p @ [(name, local)]\<rparr>)))"

definition build_var :: "pstate \<Rightarrow> nat list \<times> number \<Rightarrow> state \<Rightarrow> state" where
  "build_var p v h0 =
     (let var_name = fst v;
          var_pos = snd v;
          h = (case lams p var_name of
                 Some lam \<Rightarrow> link var_pos (Some (ptr VAR lam 0 0)) h0
               | None \<Rightarrow> h0);
          h = (case let0s p var_name of
                 Some let0 \<Rightarrow>
                   link var_pos (Some (ptr DP0 let0 (case tag0s p var_name of Some c \<Rightarrow> c | None \<Rightarrow> 0) 0)) h
               | None \<Rightarrow> h)
      in (case let1s p var_name of
            Some let1 \<Rightarrow>
              link var_pos (Some (ptr DP1 let1 (case tag1s p var_name of Some c \<Rightarrow> c | None \<Rightarrow> 0) 0)) h
          | None \<Rightarrow> h))"

definition build :: "pstate \<Rightarrow> state" where
  "build p = fold (build_var p) (vars p) (heap p)"

text \<open>
  \<open>read\<close> replaces the heap by the one-cell array \<open>[ptr(NIL,0)]\<close>; the free
  lists and the gas counter are globals that it leaves as they are.
\<close>

definition read :: "nat \<Rightarrow> nat list \<Rightarrow> state \<Rightarrow> failure + (Ptr \<times> state)" where
  "read n src s =
     (let p = \<lparr>code = src, heap = s\<lparr>MEM := [Some (ptr NIL (Num 0) 0 0)], MEM_NaN := None\<rparr>,
                lams = Map.empty, let0s = Map.empty, let1s = Map.empty,
                tag0s = Map.empty, tag1s = Map.empty, vars = []\<rparr>
      in bindE (parse_term n (Num 0) p) (\<lambda>(root, p).
           let h = build (p_link (Num 0) (Some root) p)
           in Inr (mem_read h (Num 0), h)))"

definition new_state :: state where
  "new_state = \<lparr>MEM = [], MEM_NaN = None, RE0 = [], RE1 = [], RE2 = [], RE3 = [],
                  GAS = 0, LIM' = \<infinity>\<rparr>"

section \<open>The invariant check and notions used in the statements\<close>












section \<open>Example terms and heaps\<close>

definition cell :: "nat \<Rightarrow> nat \<Rightarrow> Ptr" where
  "cell tag pos = Some (ptr tag (Num pos) 0 0)"

definition cellx :: "nat \<Rightarrow> nat \<Rightarrow> nat \<Rightarrow> nat \<Rightarrow> Ptr" where
  "cellx tag pos ex0 ex1 = Some (ptr tag (Num pos) ex0 ex1)"

definition heap_of :: "Ptr list \<Rightarrow> state" where
  "heap_of m = \<lparr>MEM = m, MEM_NaN = None, RE0 = [], RE1 = [], RE2 = [], RE3 = [],
                 GAS = 0, LIM' = \<infinity>\<rparr>"

text \<open>
  The scenario S1 of the specification, \<open>(Lx: x La: Lb: a)\<close> with \<open>L\<close> standing for
  the letter lambda: its text, the heap \<open>read\<close> builds for it, and the heap after
  normalisation.
\<close>

definition S1_src :: "nat list" where
  "S1_src =
     units ''('' @ [955] @ units ''x: x '' @ [955] @ units ''a: '' @ [955] @ units ''b: a)''"

definition S1_heap :: "state" where
  "S1_heap =
     heap_of
     [cell APP 1, cell LAM 3, cell LAM 5, cell LNK 4, cell VAR 3, cell LNK 8,
      cell LAM 7, cell NIL 0, cell VAR 5]"

definition S1_normal :: "state" where
  "S1_normal =
     \<lparr>MEM = [cell LAM 5, cell NIL 0, cell NIL 0, cell NIL 0, cell NIL 0, cell LNK 8,
              cell LAM 7, cell NIL 0, cell VAR 5],
       MEM_NaN = None, RE0 = [], RE1 = [], RE2 = [Num 3, Num 1], RE3 = [],
       GAS = 1, LIM' = \<infinity>\<rparr>"

text \<open>
  Small heaps, each the one \<open>read\<close> builds for the term named (\<open>L\<close> is the
  letter lambda): an application stuck on a variable, \<open>Lf: (f Lx: x)\<close>; a
  duplication stuck on a variable, \<open>Lf: !0<a b> = f; (a b)\<close>; a duplication of a
  superposition of the same colour, \<open>!0<a b> = &0<> Lx: x Ly: y; (a b)\<close>, and of
  another colour, \<open>!1<a b> = &0<> Lx: x Ly: y; (a b)\<close>; the duplication of a
  lambda, \<open>!0<a b> = Lx: x; (a b)\<close>; the duplication of a constructor of arity
  four, \<open>!0<a b> = $7:4{Lk: k Ll: l Lm: m Ln: n}; a\<close>.
\<close>

definition stuck_app_heap :: "state" where
  "stuck_app_heap =
     heap_of
     [cell LAM 1, cell LNK 3, cell APP 3, cell VAR 1, cell LAM 5, cell LNK 6,
      cell VAR 5]"

definition stuck_dup_heap :: "state" where
  "stuck_dup_heap =
     heap_of
     [cell LAM 1, cell LNK 5, cell APP 6, cell LNK 6, cell LNK 7, cell VAR 1,
      cell DP0 3, cell DP1 3]"

definition ann_heap :: "state" where
  "ann_heap =
     heap_of
     [cell APP 10, cell LNK 10, cell LNK 11, cell PAR 4, cell LAM 6, cell LAM 8,
      cell LNK 7, cell VAR 6, cell LNK 9, cell VAR 8, cell DP0 1, cell DP1 1]"

definition com_heap :: "state" where
  "com_heap =
     heap_of
     [cell APP 10, cell LNK 10, cell LNK 11, cell PAR 4, cell LAM 6, cell LAM 8,
      cell LNK 7, cell VAR 6, cell LNK 9, cell VAR 8, cellx DP0 1 1 0, cellx DP1 1 1 0]"

definition S3_heap :: "state" where
  "S3_heap =
     heap_of
     [cell APP 6, cell LNK 6, cell LNK 7, cell LAM 4, cell LNK 5, cell VAR 4,
      cell DP0 1, cell DP1 1]"

definition ctr_heap :: "state" where
  "ctr_heap =
     heap_of
     [cell DP0 1, cell LNK 0, cell NIL 0, cellx CTR 4 4 7, cell LAM 8, cell LAM 10,
      cell LAM 12, cell LAM 14, cell LNK 9, cell VAR 8, cell LNK 11, cell VAR 10,
      cell LNK 13, cell VAR 12, cell LNK 15, cell VAR 14]"

text \<open>
  A closed term in which every variable occurs once, inside its binder:
  \<open>Lv1: !0<a2 b2> = Lv3: Lv4: (v1 (v3 v4)); (b2 (a2 Lv5: v5))\<close>. Its heap, and
  the heaps after one and after two calls of \<open>normal\<close>.
\<close>

definition twice_src :: "nat list" where
  "twice_src =
     [955] @ units ''v1: !0<a2 b2> = '' @ [955] @ units ''v3: '' @ [955] @ units ''v4: (v1 (v3 v4)); (b2 (a2 '' @ [955] @ units ''v5: v5))''"

definition twice_heap :: "state" where
  "twice_heap =
     heap_of
     [cell LAM 1, cell LNK 10, cell APP 14, cell LNK 16, cell LNK 14, cell LAM 6,
      cell LNK 12, cell LAM 8, cell LNK 13, cell APP 10, cell VAR 1, cell APP 12,
      cell VAR 6, cell VAR 8, cell DP1 3, cell APP 16, cell DP0 3, cell LAM 18,
      cell LNK 19, cell VAR 18]"

definition twice_pass1 :: "state" where
  "twice_pass1 =
     \<lparr>MEM = [cell LAM 1, cell LNK 10, cell LAM 14, cell LNK 32, cell LNK 15, cell APP 10,
              cell NIL 0, cell NIL 0, cell LAM 18, cell VAR 14, cell VAR 1, cell PAR 31,
              cell NIL 0, cell NIL 0, cell LNK 9, cell DP1 3, cell NIL 0, cell NIL 0,
              cell LNK 19, cell VAR 18, cell NIL 0, cell NIL 0, cell NIL 0, cell NIL 0,
              cell NIL 0, cell NIL 0, cell NIL 0, cell NIL 0, cell NIL 0, cell NIL 0,
              cell NIL 0, cell APP 8, cell DP0 3],
       MEM_NaN = None, RE0 = [], RE1 = [], RE2 = [Num 22, Num 29, Num 20, Num 16, Num 6, Num 24, Num 12], RE3 = [Num 26],
       GAS = 7, LIM' = \<infinity>\<rparr>"

definition twice_pass2 :: "state" where
  "twice_pass2 =
     \<lparr>MEM = [cell LAM 1, cell LNK 10, cell LAM 14, cell LNK 32, cell LNK 15, cell APP 10,
              cell NIL 0, cell NIL 0, cell NIL 0, cell NIL 0, cell VAR 1, cell PAR 31,
              cell NIL 0, cell NIL 0, cell LNK 31, cell DP1 3, cell NIL 0, cell NIL 0,
              cell NIL 0, cell NIL 0, cell NIL 0, cell NIL 0, cell NIL 0, cell NIL 0,
              cell NIL 0, cell NIL 0, cell NIL 0, cell NIL 0, cell NIL 0, cell NIL 0,
              cell NIL 0, cell VAR 14, cell DP0 3],
       MEM_NaN = None, RE0 = [], RE1 = [], RE2 = [Num 18, Num 8, Num 22, Num 29, Num 20, Num 16, Num 6, Num 24, Num 12], RE3 = [Num 26],
       GAS = 8, LIM' = \<infinity>\<rparr>"

text \<open>
  Another closed term of that kind, a function shared by one duplicator and applied
  to itself: \<open>(!1<a1 b1> = Lv2: Lv3: (v2 v3); (b1 (a1 Lv4: v4)) Lv5: v5)\<close>. Its
  heap, the heap after nine rewrites of \<open>reduce\<close> at the root, and the heap
  \<open>reduce\<close> ends with.
\<close>

definition alias_src :: "nat list" where
  "alias_src =
     units ''(!1<a1 b1> = '' @ [955] @ units ''v2: '' @ [955] @ units ''v3: (v2 v3); (b1 (a1 '' @ [955] @ units ''v4: v4)) '' @ [955] @ units ''v5: v5)''"

definition alias_heap :: "state" where
  "alias_heap =
     heap_of
     [cell APP 1, cell APP 12, cell LAM 18, cell LNK 14, cell LNK 12, cell LAM 6,
      cell LNK 10, cell LAM 8, cell LNK 11, cell APP 10, cell VAR 6, cell VAR 8,
      cellx DP1 3 1 0, cell APP 14, cellx DP0 3 1 0, cell LAM 16, cell LNK 17, cell VAR 16,
      cell LNK 19, cell VAR 18]"

definition alias_nine :: "state" where
  "alias_nine =
     \<lparr>MEM = [cellx DP0 26 1 0, cell NIL 0, cell NIL 0, cell NIL 0, cell NIL 0, cell NIL 0,
              cellx DP1 26 1 0, cell LAM 18, cell NIL 0, cell NIL 0, cell NIL 0, cell NIL 0,
              cell NIL 0, cell NIL 0, cell NIL 0, cell NIL 0, cell NIL 0, cell NIL 0,
              cell LNK 19, cell VAR 18, cell NIL 0, cell NIL 0, cell NIL 0, cell NIL 0,
              cell NIL 0, cell NIL 0, cell LNK 0, cell LNK 6, cellx PAR 6 1 0],
       MEM_NaN = None, RE0 = [], RE1 = [], RE2 = [Num 16, Num 12, Num 22, Num 1, Num 20, Num 14, Num 8, Num 24, Num 10], RE3 = [Num 3],
       GAS = 9, LIM' = \<infinity>\<rparr>"

definition alias_whnf :: "state" where
  "alias_whnf =
     \<lparr>MEM = [cellx DP1 26 1 0, cell NIL 0, cell NIL 0, cell NIL 0, cell NIL 0, cell NIL 0,
              cell NIL 0, cell NIL 0, cell NIL 0, cell NIL 0, cell NIL 0, cell NIL 0,
              cell NIL 0, cell NIL 0, cell NIL 0, cell NIL 0, cell NIL 0, cell NIL 0,
              cell LNK 19, cell VAR 18, cell NIL 0, cell NIL 0, cell NIL 0, cell NIL 0,
              cell NIL 0, cell NIL 0, cell NIL 0, cell NIL 0, cell NIL 0],
       MEM_NaN = None, RE0 = [], RE1 = [], RE2 = [Num 6, Num 16, Num 12, Num 22, Num 1, Num 20, Num 14, Num 8, Num 24, Num 10], RE3 = [Num 26, Num 3],
       GAS = 10, LIM' = \<infinity>\<rparr>"


subsection \<open>Evaluating the model on concrete heaps\<close>

text \<open>
  Concrete runs are evaluated by the simplifier. The rules below compute the
  primitives on a heap given by its fields, and the congruence rules make the
  simplifier evaluate the argument of a \<open>let\<close> or a bind before its body.
\<close>

lemmas tag_defs = NIL_def LAM_def APP_def PAR_def DP0_def DP1_def VAR_def LNK_def CTR_def CAL_def

lemmas reduce_numeral = reduce.simps(2)[of "pred_numeral k" for k, folded numeral_eq_Suc]
lemmas go_numeral = go.simps(2)[of "pred_numeral k" for k, folded numeral_eq_Suc]
lemmas collect_numeral = collect.simps(2)[of "pred_numeral k" for k, folded numeral_eq_Suc]
lemmas parse_term_numeral = parse_term.simps(2)[of "pred_numeral k" for k, folded numeral_eq_Suc]

lemma mem_read_rec:
  "mem_read \<lparr>MEM = m, MEM_NaN = x, RE0 = a, RE1 = b, RE2 = c, RE3 = d, GAS = g, LIM' = l\<rparr> (Num k) =
     (if k < length m then m ! k else None)"
  "mem_read \<lparr>MEM = m, MEM_NaN = x, RE0 = a, RE1 = b, RE2 = c, RE3 = d, GAS = g, LIM' = l\<rparr> NaN = x"
  by (simp_all add: mem_read_def)

lemma mem_write_rec:
  "mem_write (Num k) v \<lparr>MEM = m, MEM_NaN = x, RE0 = a, RE1 = b, RE2 = c, RE3 = d, GAS = g, LIM' = l\<rparr> =
     \<lparr>MEM = (if k < length m then m[k := v] else m @ replicate (k - length m) None @ [v]),
      MEM_NaN = x, RE0 = a, RE1 = b, RE2 = c, RE3 = d, GAS = g, LIM' = l\<rparr>"
  "mem_write NaN v \<lparr>MEM = m, MEM_NaN = x, RE0 = a, RE1 = b, RE2 = c, RE3 = d, GAS = g, LIM' = l\<rparr> =
     \<lparr>MEM = m, MEM_NaN = v, RE0 = a, RE1 = b, RE2 = c, RE3 = d, GAS = g, LIM' = l\<rparr>"
  by (simp_all add: mem_write_def)

lemma pop_rec:
  "pop_RE0 \<lparr>MEM = m, MEM_NaN = x, RE0 = a, RE1 = b, RE2 = c, RE3 = d, GAS = g, LIM' = l\<rparr> =
     (case a of [] \<Rightarrow> (None, \<lparr>MEM = m, MEM_NaN = x, RE0 = a, RE1 = b, RE2 = c, RE3 = d, GAS = g, LIM' = l\<rparr>)
      | p # ps \<Rightarrow> (Some p, \<lparr>MEM = m, MEM_NaN = x, RE0 = ps, RE1 = b, RE2 = c, RE3 = d, GAS = g, LIM' = l\<rparr>))"
  "pop_RE1 \<lparr>MEM = m, MEM_NaN = x, RE0 = a, RE1 = b, RE2 = c, RE3 = d, GAS = g, LIM' = l\<rparr> =
     (case b of [] \<Rightarrow> (None, \<lparr>MEM = m, MEM_NaN = x, RE0 = a, RE1 = b, RE2 = c, RE3 = d, GAS = g, LIM' = l\<rparr>)
      | p # ps \<Rightarrow> (Some p, \<lparr>MEM = m, MEM_NaN = x, RE0 = a, RE1 = ps, RE2 = c, RE3 = d, GAS = g, LIM' = l\<rparr>))"
  "pop_RE2 \<lparr>MEM = m, MEM_NaN = x, RE0 = a, RE1 = b, RE2 = c, RE3 = d, GAS = g, LIM' = l\<rparr> =
     (case c of [] \<Rightarrow> (None, \<lparr>MEM = m, MEM_NaN = x, RE0 = a, RE1 = b, RE2 = c, RE3 = d, GAS = g, LIM' = l\<rparr>)
      | p # ps \<Rightarrow> (Some p, \<lparr>MEM = m, MEM_NaN = x, RE0 = a, RE1 = b, RE2 = ps, RE3 = d, GAS = g, LIM' = l\<rparr>))"
  "pop_RE3 \<lparr>MEM = m, MEM_NaN = x, RE0 = a, RE1 = b, RE2 = c, RE3 = d, GAS = g, LIM' = l\<rparr> =
     (case d of [] \<Rightarrow> (None, \<lparr>MEM = m, MEM_NaN = x, RE0 = a, RE1 = b, RE2 = c, RE3 = d, GAS = g, LIM' = l\<rparr>)
      | p # ps \<Rightarrow> (Some p, \<lparr>MEM = m, MEM_NaN = x, RE0 = a, RE1 = b, RE2 = c, RE3 = ps, GAS = g, LIM' = l\<rparr>))"
  by (simp_all add: pop_RE0_def pop_RE1_def pop_RE2_def pop_RE3_def split: list.splits)

lemma tick_rec:
  "tick \<lparr>MEM = m, MEM_NaN = x, RE0 = a, RE1 = b, RE2 = c, RE3 = d, GAS = g, LIM' = l\<rparr> =
     \<lparr>MEM = m, MEM_NaN = x, RE0 = a, RE1 = b, RE2 = c, RE3 = d, GAS = g + 1, LIM' = l\<rparr>"
  by (simp add: tick_def)

lemma gas_out_rec:
  "gas_out \<lparr>MEM = m, MEM_NaN = x, RE0 = a, RE1 = b, RE2 = c, RE3 = d, GAS = g, LIM' = l\<rparr> = (l \<le> enat g)"
  by (simp add: gas_out_def)

lemma list_update_numeral: "(x # xs)[numeral k := y] = x # xs[pred_numeral k := y]"
  by (simp add: numeral_eq_Suc)

lemma replicate_numeral_Cons: "replicate (numeral k) x = x # replicate (pred_numeral k) x"
  by (simp add: numeral_eq_Suc)

lemma Let_wcong: "a = b \<Longrightarrow> Let a f = Let b f"
  by simp

lemma bindE_wcong: "a = b \<Longrightarrow> bindE a f = bindE b f"
  by simp

lemma bind_wcong: "a = b \<Longrightarrow> Option.bind a f = Option.bind b f"
  by simp

lemma case_prod_wcong: "a = b \<Longrightarrow> case_prod f a = case_prod f b"
  by simp

lemmas eval_congs = Let_wcong bindE_wcong bind_wcong case_prod_wcong

lemmas read_defs = read_def new_state_def build_def build_var_def link_args_def parse_args_def
  p_link_def p_alloc_def parse_numb_def is_digit_def consume_def parse_name_def is_name_char_def
  skip_def units_def bindE_def parse_term_numeral

lemmas eval_defs = cell_def cellx_def heap_of_def normal_def go_child_def tag_defs
  MUL_A_def MUL_B_def MUL_C_def ptr_def get_tag_def get_ex0_def get_ex1_def get_pos_def get_loc_def
  mem_read_rec mem_write_rec get_arg_def num_add_def link_def pop_rec alloc_def zero_cells_def
  free_def truthy_def free_host_def tick_rec gas_out_rec subst_def app_lam_def app_par_def
  let_lam_def let_par_annihilate_def let_par_commute_def let_ctr_arg_def let_ctr_def
  reduce_numeral go_numeral collect_numeral Let_def list_update_numeral replicate_numeral_Cons
  upt_rec


section \<open>Properties of the runtime\<close>

subsection \<open>The gas counter and the free lists\<close>

lemma mem_write_fields [simp]:
  "GAS (mem_write i v s) = GAS s" "LIM' (mem_write i v s) = LIM' s"
  "RE0 (mem_write i v s) = RE0 s" "RE1 (mem_write i v s) = RE1 s"
  "RE2 (mem_write i v s) = RE2 s" "RE3 (mem_write i v s) = RE3 s"
  by (simp_all add: mem_write_def split: number.splits)

lemma link_fields [simp]:
  "GAS (link i v s) = GAS s" "LIM' (link i v s) = LIM' s"
  "RE0 (link i v s) = RE0 s" "RE1 (link i v s) = RE1 s"
  "RE2 (link i v s) = RE2 s" "RE3 (link i v s) = RE3 s"
  by (simp_all add: link_def Let_def)

lemma fold_mem_write_fields [simp]:
  "GAS (fold (\<lambda>k. mem_write (Num k) v) ks s) = GAS s"
  "LIM' (fold (\<lambda>k. mem_write (Num k) v) ks s) = LIM' s"
  "RE0 (fold (\<lambda>k. mem_write (Num k) v) ks s) = RE0 s"
  "RE1 (fold (\<lambda>k. mem_write (Num k) v) ks s) = RE1 s"
  "RE2 (fold (\<lambda>k. mem_write (Num k) v) ks s) = RE2 s"
  "RE3 (fold (\<lambda>k. mem_write (Num k) v) ks s) = RE3 s"
  by (induction ks arbitrary: s; simp)+

lemma zero_cells_fields [simp]:
  "GAS (zero_cells p n s) = GAS s" "LIM' (zero_cells p n s) = LIM' s"
  "RE0 (zero_cells p n s) = RE0 s" "RE1 (zero_cells p n s) = RE1 s"
  "RE2 (zero_cells p n s) = RE2 s" "RE3 (zero_cells p n s) = RE3 s"
  by (simp_all add: zero_cells_def split: number.splits)

lemma free_gas [simp]: "GAS (free p n s) = GAS s" "LIM' (free p n s) = LIM' s"
  by (simp_all add: free_def Let_def)

lemma alloc_gas [simp]: "GAS (snd (alloc n s)) = GAS s" "LIM' (snd (alloc n s)) = LIM' s"
  by (simp_all add: alloc_def pop_RE0_def pop_RE1_def pop_RE2_def pop_RE3_def Let_def
      split: list.splits option.splits prod.splits)

lemma free_host_gas [simp]: "GAS (free_host h s) = GAS s" "LIM' (free_host h s) = LIM' s"
  by (simp_all add: free_host_def)

lemma tick_fields [simp]: "GAS (tick s) = GAS s + 1" "LIM' (tick s) = LIM' s"
  by (simp_all add: tick_def)

lemma fold_bind_inv:
  assumes "fold (\<lambda>i r. r \<bind> f i) xs (Some a) = Some b"
    and "Q a"
    and "\<And>i x y. i \<in> set xs \<Longrightarrow> Q x \<Longrightarrow> f i x = Some y \<Longrightarrow> Q y"
  shows "Q b"
  using assms
proof (induction xs arbitrary: a)
  case Nil
  then show ?case by simp
next
  case (Cons i xs)
  show ?case
  proof (cases "f i a")
    case None
    have "fold (\<lambda>i r. r \<bind> f i) xs None = None"
      by (induction xs) simp_all
    with Cons.prems(1) None show ?thesis by simp
  next
    case (Some y)
    have "Q y" using Cons.prems(2) Cons.prems(3)[of i a y] Some by simp
    moreover have "fold (\<lambda>i r. r \<bind> f i) xs (Some y) = Some b"
      using Cons.prems(1) Some by simp
    ultimately show ?thesis using Cons.prems(3) by (intro Cons.IH[of y]) auto
  qed
qed

lemma collect_gas: "collect n t h s = Some s' \<Longrightarrow> GAS s' = GAS s \<and> LIM' s' = LIM' s"
proof (induction n arbitrary: t h s s')
  case 0
  then show ?case by simp
next
  case (Suc n)
  have ctr: "get_tag t = CTR \<or> get_tag t = CAL \<Longrightarrow> ?case"
    if "get_tag t \<noteq> LAM" "get_tag t \<noteq> APP" "get_tag t \<noteq> PAR" "get_tag t \<noteq> DP0" "get_tag t \<noteq> DP1"
  proof -
    assume c: "get_tag t = CTR \<or> get_tag t = CAL"
    from Suc.prems that c obtain s1 where
      f: "fold (\<lambda>i r. r \<bind> (\<lambda>s'. collect n (get_arg s' t i) (Some (get_loc t i)) s'))
              [0..<get_ex0 t] (Some s) = Some s1"
      and e: "s' = free (get_loc t 0) (get_ex0 t) s1"
      by (auto simp: Let_def split: bind_splits)
    have "GAS s1 = GAS s \<and> LIM' s1 = LIM' s"
      by (rule fold_bind_inv[OF f, where Q = "\<lambda>x. GAS x = GAS s \<and> LIM' x = LIM' s"])
         (auto dest: Suc.IH)
    with e show ?case by simp
  qed
  show ?case
  proof (cases "get_tag t = LAM \<or> get_tag t = APP \<or> get_tag t = PAR \<or> get_tag t = DP0 \<or> get_tag t = DP1")
    case True
    with Suc.prems show ?thesis
      by (auto simp: Let_def split: bind_splits if_splits dest!: Suc.IH)
  next
    case False
    show ?thesis
    proof (cases "get_tag t = CTR \<or> get_tag t = CAL")
      case True
      with False ctr show ?thesis by simp
    next
      case nc: False
      with False Suc.prems show ?thesis by (auto split: if_splits)
    qed
  qed
qed

lemma subst_gas: "subst n l v s = Some s' \<Longrightarrow> GAS s' = GAS s \<and> LIM' s' = LIM' s"
  by (auto simp: subst_def split: if_splits dest: collect_gas)

lemma alloc_gasE: "alloc n s = (p, s') \<Longrightarrow> GAS s' = GAS s \<and> LIM' s' = LIM' s"
  using alloc_gas[of n s] by simp

lemma app_lam_gas: "app_lam n host t f s = Some s' \<Longrightarrow> GAS s' = GAS s + 1 \<and> LIM' s' = LIM' s"
  by (auto simp: app_lam_def Let_def split: bind_splits dest!: subst_gas)

lemma app_par_gas: "GAS (app_par host t f s) = GAS s + 1 \<and> LIM' (app_par host t f s) = LIM' s"
  by (auto simp: app_par_def Let_def split: prod.splits dest!: alloc_gasE)

lemma let_lam_gas: "let_lam n host t e s = Some s' \<Longrightarrow> GAS s' = GAS s + 1 \<and> LIM' s' = LIM' s"
  by (auto simp: let_lam_def Let_def split: bind_splits prod.splits dest!: subst_gas alloc_gasE)

lemma let_par_annihilate_gas:
  "let_par_annihilate n host t e s = Some s' \<Longrightarrow> GAS s' = GAS s + 1 \<and> LIM' s' = LIM' s"
  by (auto simp: let_par_annihilate_def Let_def split: bind_splits dest!: subst_gas)

lemma let_par_commute_gas:
  "let_par_commute n host t e s = Some s' \<Longrightarrow> GAS s' = GAS s + 1 \<and> LIM' s' = LIM' s"
  by (auto simp: let_par_commute_def Let_def split: bind_splits prod.splits dest!: subst_gas alloc_gasE)

lemma let_ctr_arg_gas:
  "GAS (let_ctr_arg e c0 c1 i s) = GAS s \<and> LIM' (let_ctr_arg e c0 c1 i s) = LIM' s"
  by (auto simp: let_ctr_arg_def Let_def split: prod.splits dest!: alloc_gasE)

lemma fold_let_ctr_arg_gas:
  "GAS (fold (let_ctr_arg e c0 c1) xs s) = GAS s \<and> LIM' (fold (let_ctr_arg e c0 c1) xs s) = LIM' s"
  by (induction xs arbitrary: s) (simp_all add: let_ctr_arg_gas)

lemma let_ctr_gas: "let_ctr n host t e s = Some s' \<Longrightarrow> GAS s' = GAS s + 1 \<and> LIM' s' = LIM' s"
  by (auto simp: let_ctr_def Let_def fold_let_ctr_arg_gas split: bind_splits prod.splits
      dest!: subst_gas alloc_gasE)

lemma reduce_gas_mono:
  "reduce n host s = Some (t, s') \<Longrightarrow> GAS s \<le> GAS s' \<and> LIM' s' = LIM' s"
proof (induction n arbitrary: host s t s')
  case 0
  then show ?case by simp
next
  case (Suc n)
  let ?tm = "mem_read s host"
  show ?case
  proof (cases "get_tag ?tm = APP")
    case True
    with Suc.prems obtain func s1 where r: "reduce n (get_loc ?tm 0) s = Some (func, s1)"
      by (auto simp: Let_def split: option.splits)
    note g1 = Suc.IH[OF r]
    from Suc.prems True r show ?thesis
      using g1 app_par_gas[of host ?tm func s1]
      by (auto simp: Let_def split: if_splits bind_splits dest!: app_lam_gas Suc.IH)
  next
    case False
    show ?thesis
    proof (cases "get_tag ?tm = DP0 \<or> get_tag ?tm = DP1")
      case True
      with False Suc.prems obtain expr s1 where r: "reduce n (get_loc ?tm 2) s = Some (expr, s1)"
        by (auto simp: Let_def split: option.splits)
      note g1 = Suc.IH[OF r]
      from Suc.prems True False r show ?thesis
        using g1
        by (auto simp: Let_def split: if_splits bind_splits
            dest!: let_lam_gas let_par_annihilate_gas let_par_commute_gas let_ctr_gas Suc.IH)
    next
      case nd: False
      with False Suc.prems show ?thesis by (auto simp: Let_def)
    qed
  qed
qed


lemma go_rel:
  fixes R :: "state \<Rightarrow> state \<Rightarrow> bool" and Pre :: "state \<Rightarrow> bool"
  assumes refl: "\<And>s. R s s"
    and trans: "\<And>s1 s2 s3. R s1 s2 \<Longrightarrow> R s2 s3 \<Longrightarrow> R s1 s3"
    and lnk: "\<And>s l t. R s (link l t s)"
    and red: "\<And>n h s t s'. reduce n h s = Some (t, s') \<Longrightarrow> Pre s \<Longrightarrow> R s s'"
    and pre: "\<And>s s'. R s s' \<Longrightarrow> Pre s \<Longrightarrow> Pre s'"
  shows "go n host seen s = Some (t, seen', s') \<Longrightarrow> Pre s \<Longrightarrow> R s s'"
proof (induction n arbitrary: host seen s t seen' s')
  case 0
  then show ?case by simp
next
  case (Suc n)
  have child: "R (snd r) (snd r') \<and> Pre (snd r')"
    if "go_child (go n) loc r = Some r'" "Pre (snd r)" for loc r r'
  proof -
    from that(1) obtain t2 s2 where g: "go n loc (fst r) (snd r) = Some (t2, fst r', s2)"
      and e: "snd r' = link loc t2 s2"
      by (auto simp: go_child_def split: option.splits)
    have "R (snd r) s2" using Suc.IH[OF g that(2)] .
    moreover have "R s2 (snd r')" unfolding e by (rule lnk)
    ultimately have "R (snd r) (snd r')" by (rule trans)
    moreover from this that(2) have "Pre (snd r')" by (rule pre)
    ultimately show ?thesis by simp
  qed
  let ?tm = "mem_read s host"
  show ?case
  proof (cases "get_loc ?tm 0 \<in> set seen")
    case True
    with Suc.prems show ?thesis by (simp add: refl)
  next
    case False
    have "reduce n host s \<noteq> None"
    proof
      assume "reduce n host s = None"
      with Suc.prems(1) False show False by (simp add: Let_def)
    qed
    then obtain tm s1 where r: "reduce n host s = Some (tm, s1)"
      by (cases "reduce n host s") auto
    have R1: "R s s1" using red[OF r Suc.prems(2)] .
    have P1: "Pre s1" using pre[OF R1 Suc.prems(2)] .
    let ?seen1 = "get_loc tm 0 # seen"
    from Suc.prems(1) False r have body:
      "(if get_tag tm = LAM then
          do { r \<leftarrow> go_child (go n) (get_loc tm 1) (?seen1, s1); Some (tm, r) }
        else if get_tag tm = APP \<or> get_tag tm = PAR then
          do { r \<leftarrow> go_child (go n) (get_loc tm 0) (?seen1, s1);
               r \<leftarrow> go_child (go n) (get_loc tm 1) r; Some (tm, r) }
        else if get_tag tm = DP0 \<or> get_tag tm = DP1 then
          do { r \<leftarrow> go_child (go n) (get_loc tm 2) (?seen1, s1); Some (tm, r) }
        else if get_tag tm = CAL \<or> get_tag tm = CTR then
          do { r \<leftarrow> fold (\<lambda>i r. r \<bind> go_child (go n) (get_loc tm i))
                 [0..<get_ex0 tm] (Some (?seen1, s1)); Some (tm, r) }
        else Some (tm, ?seen1, s1)) = Some (t, seen', s')"
      by (simp add: Let_def)
    have "R s1 s'"
    proof (cases "get_tag tm = LAM")
      case True
      with body obtain r' where c: "go_child (go n) (get_loc tm 1) (?seen1, s1) = Some r'"
        and e: "(seen', s') = r'"
        by (auto split: bind_splits)
      from child[OF c] P1 e show ?thesis by auto
    next
      case nl: False
      show ?thesis
      proof (cases "get_tag tm = APP \<or> get_tag tm = PAR")
        case True
        with nl body obtain r1 r2 where c1: "go_child (go n) (get_loc tm 0) (?seen1, s1) = Some r1"
          and c2: "go_child (go n) (get_loc tm 1) r1 = Some r2"
          and e: "(seen', s') = r2"
          by (auto split: bind_splits)
        from child[OF c1] P1 have a: "R s1 (snd r1)" "Pre (snd r1)" by auto
        from child[OF c2 a(2)] have "R (snd r1) (snd r2)" by simp
        with a(1) have "R s1 (snd r2)" by (rule trans)
        with e show ?thesis by auto
      next
        case na: False
        show ?thesis
        proof (cases "get_tag tm = DP0 \<or> get_tag tm = DP1")
          case True
          with nl na body obtain r' where c: "go_child (go n) (get_loc tm 2) (?seen1, s1) = Some r'"
            and e: "(seen', s') = r'"
            by (auto split: bind_splits)
          from child[OF c] P1 e show ?thesis by auto
        next
          case nd: False
          show ?thesis
          proof (cases "get_tag tm = CAL \<or> get_tag tm = CTR")
            case True
            with nl na nd body obtain r' where
              f: "fold (\<lambda>i r. r \<bind> go_child (go n) (get_loc tm i))
                    [0..<get_ex0 tm] (Some (?seen1, s1)) = Some r'"
              and e: "(seen', s') = r'"
              by (auto split: bind_splits)
            have "R s1 (snd r') \<and> Pre (snd r')"
            proof (rule fold_bind_inv[OF f, where Q = "\<lambda>x. R s1 (snd x) \<and> Pre (snd x)"])
              show "R s1 (snd (?seen1, s1)) \<and> Pre (snd (?seen1, s1))" using refl P1 by simp
            next
              fix i x y
              assume a: "R s1 (snd x) \<and> Pre (snd x)" "go_child (go n) (get_loc tm i) x = Some y"
              from child[OF a(2)] a(1) have "R (snd x) (snd y)" "Pre (snd y)" by simp_all
              moreover from a(1) this(1) have "R s1 (snd y)" by (blast intro: trans)
              ultimately show "R s1 (snd y) \<and> Pre (snd y)" by simp
            qed
            with e show ?thesis by auto
          next
            case False
            with nl na nd body show ?thesis by (auto simp: refl)
          qed
        qed
      qed
    qed
    with R1 show ?thesis by (rule trans)
  qed
qed

lemma length_mem_write: "length (MEM s) \<le> length (MEM (mem_write i v s))"
  by (simp add: mem_write_def split: number.splits)

lemma length_mem_write_ge: "k < length (MEM (mem_write (Num k) v s))"
  by (simp add: mem_write_def)

lemma mem_read_mem_write_same: "mem_read (mem_write i v s) i = v"
  by (auto simp: mem_read_def mem_write_def nth_append split: number.splits)

lemma mem_read_mem_write_other:
  "i \<noteq> j \<Longrightarrow> mem_read s j = Some x \<Longrightarrow> mem_read (mem_write i v s) j = Some x"
  by (auto simp: mem_read_def mem_write_def nth_append nth_list_update split: number.splits if_splits)

lemma fold_zero_read:
  "mem_read (fold (\<lambda>k. mem_write (Num k) (Some (Num 0))) ks s) (Num j) = Some (Num 0)"
  if "j \<in> set ks \<or> mem_read s (Num j) = Some (Num 0)"
  using that
proof (induction ks arbitrary: s)
  case Nil
  then show ?case by simp
next
  case (Cons k ks)
  show ?case
  proof (cases "j = k")
    case True
    then show ?thesis using Cons.IH[of "mem_write (Num k) (Some (Num 0)) s"]
      by (simp add: mem_read_mem_write_same)
  next
    case False
    with Cons.prems have "j \<in> set ks \<or> mem_read (mem_write (Num k) (Some (Num 0)) s) (Num j) = Some (Num 0)"
      by (auto intro: mem_read_mem_write_other)
    then show ?thesis using Cons.IH by simp
  qed
qed

lemma zero_cells_read:
  "k < n \<Longrightarrow> mem_read (zero_cells (Num p) n s) (Num (p + k)) = Some (Num 0)"
  by (simp add: zero_cells_def fold_zero_read)

lemma fold_zero_length:
  "\<forall>k\<in>set ks. k < length (MEM (fold (\<lambda>k. mem_write (Num k) v) ks s))"
proof (induction ks arbitrary: s)
  case Nil
  then show ?case by simp
next
  case (Cons k ks)
  have mono: "length (MEM t) \<le> length (MEM (fold (\<lambda>k. mem_write (Num k) v) ks t))" for t
    by (induction ks arbitrary: t) (auto intro: order_trans[OF length_mem_write])
  have "k < length (MEM (mem_write (Num k) v s))" by (rule length_mem_write_ge)
  with mono[of "mem_write (Num k) v s"] Cons.IH show ?case by auto
qed

lemma zero_cells_length:
  "0 < n \<Longrightarrow> p + n \<le> length (MEM (zero_cells (Num p) n s))"
proof -
  assume "0 < n"
  then have "p + n - 1 \<in> set [p..<p + n]" by simp
  with fold_zero_length[of "[p..<p + n]" "Some (Num 0)" s]
  have "p + n - 1 < length (MEM (zero_cells (Num p) n s))"
    unfolding zero_cells_def by simp
  then show ?thesis by simp
qed

lemma go_gas_mono:
  "go n host seen s = Some (t, seen', s') \<Longrightarrow> GAS s \<le> GAS s' \<and> LIM' s' = LIM' s"
  by (rule go_rel[where R = "\<lambda>s s'. GAS s \<le> GAS s' \<and> LIM' s' = LIM' s" and Pre = "\<lambda>s. True"])
     (auto dest: reduce_gas_mono)

lemma normal_gas_mono:
  "normal n host s = Some (t, s') \<Longrightarrow> GAS s \<le> GAS s' \<and> LIM' s' = LIM' s"
  by (auto simp: normal_def dest: go_gas_mono)




subsection \<open>Passes of \<open>normal\<close> that apply no rewrite\<close>








section \<open>The claims\<close>







text \<open>
  C5. The gas counter never decreases across a call of \<open>reduce\<close> or of \<open>normal\<close>,
  and each of the six rewrite rules (App-Lam, App-Par, Let-Lam, annihilating
  Let-Par, commuting Let-Par, Let-Ctr) increments it by exactly one.
\<close>

theorem gas_monotone:
  "(reduce n host s = Some (t, s') \<longrightarrow> GAS s \<le> GAS s') \<and>
   (normal n1 host1 a1 = Some (t1, b1) \<longrightarrow> GAS a1 \<le> GAS b1) \<and>
   (app_lam n2 host2 tm2 func2 a2 = Some b2 \<longrightarrow> GAS b2 = GAS a2 + 1) \<and>
   GAS (app_par host3 tm3 func3 a3) = GAS a3 + 1 \<and>
   (let_lam n4 host4 tm4 expr4 a4 = Some b4 \<longrightarrow> GAS b4 = GAS a4 + 1) \<and>
   (let_par_annihilate n5 host5 tm5 expr5 a5 = Some b5 \<longrightarrow> GAS b5 = GAS a5 + 1) \<and>
   (let_par_commute n6 host6 tm6 expr6 a6 = Some b6 \<longrightarrow> GAS b6 = GAS a6 + 1) \<and>
   (let_ctr n7 host7 tm7 expr7 a7 = Some b7 \<longrightarrow> GAS b7 = GAS a7 + 1)"
  by (auto dest: reduce_gas_mono normal_gas_mono app_lam_gas let_lam_gas let_par_annihilate_gas
      let_par_commute_gas let_ctr_gas simp: app_par_gas)

theorem gas_monotone_witness:
  "reduce 3 (Num 0) S1_heap = Some (cell LAM 5, S1_normal) \<and> GAS S1_heap \<le> GAS S1_normal \<and>
   normal 10 (Num 0) S1_heap = Some (cell LAM 5, S1_normal) \<and>
   app_lam 1 (Num 0) (cell APP 1) (cell LAM 3) S1_heap = Some S1_normal \<and>
   GAS S1_normal = GAS S1_heap + 1 \<and>
   GAS (app_par (Num 0) (cell APP 1) (cell LAM 3) S1_heap) = GAS S1_heap + 1 \<and>
   let_lam 1 (Num 6) (cell DP0 1) (cell LAM 4) S3_heap \<noteq> None \<and>
   GAS (the (let_lam 1 (Num 6) (cell DP0 1) (cell LAM 4) S3_heap)) = GAS S3_heap + 1 \<and>
   let_par_annihilate 1 (Num 10) (cell DP0 1) (cell PAR 4) ann_heap \<noteq> None \<and>
   GAS (the (let_par_annihilate 1 (Num 10) (cell DP0 1) (cell PAR 4) ann_heap)) = GAS ann_heap + 1 \<and>
   let_par_commute 1 (Num 10) (cellx DP0 1 1 0) (cell PAR 4) com_heap \<noteq> None \<and>
   GAS (the (let_par_commute 1 (Num 10) (cellx DP0 1 1 0) (cell PAR 4) com_heap)) = GAS com_heap + 1 \<and>
   let_ctr 2 (Num 0) (cell DP0 1) (cellx CTR 4 4 7) ctr_heap \<noteq> None \<and>
   GAS (the (let_ctr 2 (Num 0) (cell DP0 1) (cellx CTR 4 4 7) ctr_heap)) = GAS ctr_heap + 1"
proof -
  have r: "reduce 3 (Num 0) S1_heap = Some (cell LAM 5, S1_normal)"
    by (simp add: S1_heap_def S1_normal_def eval_defs cong: eval_congs)
  have n: "normal 10 (Num 0) S1_heap = Some (cell LAM 5, S1_normal)"
    by (simp add: S1_heap_def S1_normal_def eval_defs cong: eval_congs)
  have al: "app_lam 1 (Num 0) (cell APP 1) (cell LAM 3) S1_heap = Some S1_normal"
    by (simp add: S1_heap_def S1_normal_def eval_defs cong: eval_congs)
  have ll: "let_lam 1 (Num 6) (cell DP0 1) (cell LAM 4) S3_heap \<noteq> None"
    by (simp add: S3_heap_def eval_defs cong: eval_congs)
  have an: "let_par_annihilate 1 (Num 10) (cell DP0 1) (cell PAR 4) ann_heap \<noteq> None"
    by (simp add: ann_heap_def eval_defs cong: eval_congs)
  have co: "let_par_commute 1 (Num 10) (cellx DP0 1 1 0) (cell PAR 4) com_heap \<noteq> None"
    by (simp add: com_heap_def eval_defs cong: eval_congs)
  have ct: "let_ctr 2 (Num 0) (cell DP0 1) (cellx CTR 4 4 7) ctr_heap \<noteq> None"
    by (simp add: ctr_heap_def eval_defs cong: eval_congs)
  note g = gas_monotone[where n = 3 and host = "Num 0" and s = S1_heap and t = "cell LAM 5"
      and s' = S1_normal and ?n1.0 = 10 and ?host1.0 = "Num 0" and ?a1.0 = S1_heap
      and ?t1.0 = "cell LAM 5" and ?b1.0 = S1_normal
      and ?n2.0 = 1 and ?host2.0 = "Num 0" and ?tm2.0 = "cell APP 1" and ?func2.0 = "cell LAM 3"
      and ?a2.0 = S1_heap and ?b2.0 = S1_normal
      and ?host3.0 = "Num 0" and ?tm3.0 = "cell APP 1" and ?func3.0 = "cell LAM 3" and ?a3.0 = S1_heap
      and ?n4.0 = 1 and ?host4.0 = "Num 6" and ?tm4.0 = "cell DP0 1" and ?expr4.0 = "cell LAM 4"
      and ?a4.0 = S3_heap and ?b4.0 = "the (let_lam 1 (Num 6) (cell DP0 1) (cell LAM 4) S3_heap)"
      and ?n5.0 = 1 and ?host5.0 = "Num 10" and ?tm5.0 = "cell DP0 1" and ?expr5.0 = "cell PAR 4"
      and ?a5.0 = ann_heap
      and ?b5.0 = "the (let_par_annihilate 1 (Num 10) (cell DP0 1) (cell PAR 4) ann_heap)"
      and ?n6.0 = 1 and ?host6.0 = "Num 10" and ?tm6.0 = "cellx DP0 1 1 0" and ?expr6.0 = "cell PAR 4"
      and ?a6.0 = com_heap
      and ?b6.0 = "the (let_par_commute 1 (Num 10) (cellx DP0 1 1 0) (cell PAR 4) com_heap)"
      and ?n7.0 = 2 and ?host7.0 = "Num 0" and ?tm7.0 = "cell DP0 1" and ?expr7.0 = "cellx CTR 4 4 7"
      and ?a7.0 = ctr_heap
      and ?b7.0 = "the (let_ctr 2 (Num 0) (cell DP0 1) (cellx CTR 4 4 7) ctr_heap)"]
  from g r n al ll an co ct show ?thesis by auto
qed

text \<open>
  C7. When the host slot holds an \<open>App\<close> whose function slot reduces to a pointer
  that is neither a \<open>Lam\<close> nor a \<open>Par\<close>, or a \<open>Dp0\<close> or \<open>Dp1\<close> whose expression
  slot reduces to a pointer that is none of \<open>Lam\<close>, \<open>Par\<close>, \<open>Ctr\<close>, then
  \<open>reduce\<close> returns the content of the host as it read it, with the state the
  reduction of that slot produced: no rule is applied and gas is not incremented.
\<close>

theorem reduce_stuck_noop:
  "(get_tag (mem_read s host) = APP \<longrightarrow>
      reduce n (get_loc (mem_read s host) 0) s = Some (func, s1) \<longrightarrow>
      get_tag func \<noteq> LAM \<longrightarrow> get_tag func \<noteq> PAR \<longrightarrow>
      reduce (Suc n) host s = Some (mem_read s host, s1)) \<and>
   ((get_tag (mem_read s' host') = DP0 \<or> get_tag (mem_read s' host') = DP1) \<longrightarrow>
      reduce n' (get_loc (mem_read s' host') 2) s' = Some (expr, s1') \<longrightarrow>
      get_tag expr \<noteq> LAM \<longrightarrow> get_tag expr \<noteq> PAR \<longrightarrow> get_tag expr \<noteq> CTR \<longrightarrow>
      reduce (Suc n') host' s' = Some (mem_read s' host', s1'))"
  by (auto simp: Let_def tag_defs)

theorem reduce_stuck_noop_witness:
  "get_tag (mem_read stuck_app_heap (Num 2)) = APP \<and>
   reduce 1 (get_loc (mem_read stuck_app_heap (Num 2)) 0) stuck_app_heap =
     Some (cell VAR 1, stuck_app_heap) \<and>
   get_tag (cell VAR 1) \<noteq> LAM \<and> get_tag (cell VAR 1) \<noteq> PAR \<and> get_tag (cell VAR 1) \<noteq> CTR \<and>
   reduce (Suc 1) (Num 2) stuck_app_heap = Some (cell APP 3, stuck_app_heap) \<and>
   (get_tag (mem_read stuck_dup_heap (Num 6)) = DP0 \<or> get_tag (mem_read stuck_dup_heap (Num 6)) = DP1) \<and>
   reduce 1 (get_loc (mem_read stuck_dup_heap (Num 6)) 2) stuck_dup_heap =
     Some (cell VAR 1, stuck_dup_heap) \<and>
   reduce (Suc 1) (Num 6) stuck_dup_heap = Some (cell DP0 3, stuck_dup_heap)"
proof -
  have a1: "get_tag (mem_read stuck_app_heap (Num 2)) = APP"
    by (simp add: stuck_app_heap_def eval_defs)
  have a2: "reduce 1 (get_loc (mem_read stuck_app_heap (Num 2)) 0) stuck_app_heap =
     Some (cell VAR 1, stuck_app_heap)"
    by (simp add: stuck_app_heap_def eval_defs cong: eval_congs)
  have v: "get_tag (cell VAR 1) \<noteq> LAM" "get_tag (cell VAR 1) \<noteq> PAR" "get_tag (cell VAR 1) \<noteq> CTR"
    by (simp_all add: eval_defs)
  have d1: "get_tag (mem_read stuck_dup_heap (Num 6)) = DP0 \<or> get_tag (mem_read stuck_dup_heap (Num 6)) = DP1"
    by (simp add: stuck_dup_heap_def eval_defs)
  have d2: "reduce 1 (get_loc (mem_read stuck_dup_heap (Num 6)) 2) stuck_dup_heap =
     Some (cell VAR 1, stuck_dup_heap)"
    by (simp add: stuck_dup_heap_def eval_defs cong: eval_congs)
  have m: "mem_read stuck_app_heap (Num 2) = cell APP 3" "mem_read stuck_dup_heap (Num 6) = cell DP0 3"
    by (simp_all add: stuck_app_heap_def stuck_dup_heap_def eval_defs)
  from reduce_stuck_noop[where s = stuck_app_heap and host = "Num 2" and n = 1 and func = "cell VAR 1"
      and ?s1.0 = stuck_app_heap and s' = stuck_dup_heap and host' = "Num 6" and n' = 1
      and expr = "cell VAR 1" and s1' = stuck_dup_heap] a1 a2 v d1 d2
  have "reduce (Suc 1) (Num 2) stuck_app_heap = Some (mem_read stuck_app_heap (Num 2), stuck_app_heap)"
    "reduce (Suc 1) (Num 6) stuck_dup_heap = Some (mem_read stuck_dup_heap (Num 6), stuck_dup_heap)"
    by blast+
  with m a1 a2 v d1 d2 show ?thesis by simp
qed

text \<open>
  C8. Scenario S1: \<open>read\<close> builds the heap \<open>S1_heap\<close> for the text
  \<open>(Lx: x La: Lb: a)\<close>, and \<open>normal\<close> at the root turns it into \<open>S1_normal\<close>:
  the root holds a \<open>Lam\<close> whose body is a \<open>Lam\<close> with an unused binder, whose body
  is the variable of the outer \<open>Lam\<close>; the gas counter ends at 1.
\<close>

theorem S1_scenario:
  "read 10 S1_src new_state = Inr (cell APP 1, S1_heap) \<and>
   normal 10 (Num 0) S1_heap = Some (cell LAM 5, S1_normal) \<and>
   GAS S1_normal = 1 \<and>
   mem_read S1_normal (Num 0) = cell LAM 5 \<and>
   get_arg S1_normal (cell LAM 5) 0 = cell LNK 8 \<and>
   get_arg S1_normal (cell LAM 5) 1 = cell LAM 7 \<and>
   get_arg S1_normal (cell LAM 7) 0 = cell NIL 0 \<and>
   get_arg S1_normal (cell LAM 7) 1 = cell VAR 5 \<and>
   mem_read S1_normal (Num 8) = cell VAR 5"
proof -
  have "read 10 S1_src new_state = Inr (cell APP 1, S1_heap)"
    by (simp add: S1_src_def S1_heap_def read_defs eval_defs cong: eval_congs)
  moreover have "normal 10 (Num 0) S1_heap = Some (cell LAM 5, S1_normal)"
    by (simp add: S1_heap_def S1_normal_def eval_defs cong: eval_congs)
  moreover have "GAS S1_normal = 1" "mem_read S1_normal (Num 0) = cell LAM 5"
    "get_arg S1_normal (cell LAM 5) 0 = cell LNK 8" "get_arg S1_normal (cell LAM 5) 1 = cell LAM 7"
    "get_arg S1_normal (cell LAM 7) 0 = cell NIL 0" "get_arg S1_normal (cell LAM 7) 1 = cell VAR 5"
    "mem_read S1_normal (Num 8) = cell VAR 5"
    by (simp_all add: S1_normal_def eval_defs)
  ultimately show ?thesis by blast
qed

end
